theory Spec2Isabelle
  imports Main "HOL-Library.Word"
begin

section \<open>The generated-model builder of dbml-builder (\<^verbatim>\<open>dbml_builder/build.py\<close>)\<close>

text \<open>
  The module has three functions: \<^verbatim>\<open>get_dbml_version\<close>, \<^verbatim>\<open>verify\<close> and
  \<^verbatim>\<open>generate_models\<close>. They act on the file system and on \<^verbatim>\<open>sys.stdout\<close>, and they call
  libraries (PyDBML, O! My Models, hashlib, json) and the patch functions of
  \<^verbatim>\<open>dbml_builder.fix\<close>. The embedding threads a state holding the file system and
  \<^verbatim>\<open>sys.stdout\<close> through every statement, turns every exception into a value, and takes the
  libraries as the fields of a record of functions.
\<close>

subsection \<open>Data\<close>

text \<open>Python's \<^verbatim>\<open>str\<close> and \<^verbatim>\<open>bytes\<close>, and file names.\<close>

type_synonym str = string
type_synonym bytes = string
type_synonym path = string

text \<open>The exceptions that leave the three functions.\<close>

datatype error =
    FileNotFoundError path
  | IsADirectoryError path
  | FileExistsError path
  | KeyError str
  | TypeError
  | AttributeError
  | JSONDecodeError
  | LibraryError str

text \<open>
  What a path names: a regular file with its bytes, or a directory. A path that names
  nothing is absent from the map. Two different strings are two different files: links and
  the several spellings of one name are left out.
\<close>

datatype node = File bytes | Dir

text \<open>The object bound to \<^verbatim>\<open>sys.stdout\<close>: some stream of the caller, or the null device.\<close>

datatype stream = Stream nat | DevNull

record world =
  fs :: "path \<rightharpoonup> node"
  stdout :: stream

text \<open>
  The value \<^verbatim>\<open>json.load\<close> returns: a float is its 64 bits, an object is a \<^verbatim>\<open>dict\<close> with
  its keys in order.
\<close>

datatype json =
    JNull
  | JBool bool
  | JInt int
  | JFloat "64 word"
  | JStr str
  | JArr "json list"
  | JObj "(str \<times> json) list"

text \<open>
  The parsed schema, as far as the module looks at it: the outcome of evaluating
  \<^verbatim>\<open>dbml.project.note.text\<close> (an error when the schema has no project or no note) and of
  evaluating \<^verbatim>\<open>dbml.sql\<close>.
\<close>

record database =
  project_note_text :: "error + str"
  sql :: "error + str"

text \<open>The \<^verbatim>\<open>models_type\<close> argument of \<^verbatim>\<open>create_models\<close>.\<close>

datatype models_type = Pydantic | SQLAlchemy

text \<open>
  The functions the module calls and does not define. \<^verbatim>\<open>PyDBML\<close> gets the bytes of the
  schema source; \<^verbatim>\<open>create_models\<close> returns a \<^verbatim>\<open>dict\<close>; \<^verbatim>\<open>sha1_hex b\<close> is
  \<^verbatim>\<open>sha1(b).hexdigest()\<close>; \<^verbatim>\<open>encode s\<close> is \<^verbatim>\<open>s.encode()\<close>; \<^verbatim>\<open>write_text s\<close> is the bytes
  that \<^verbatim>\<open>file.write(s)\<close> stores through a file opened with mode \<^verbatim>\<open>'w'\<close> (the encoding of
  the locale and the newlines of the platform), or the error it raises; \<^verbatim>\<open>json_dump j\<close> is
  the bytes that \<^verbatim>\<open>dump(j, file)\<close> stores through such a file, and \<^verbatim>\<open>json_load b\<close> is what
  \<^verbatim>\<open>load(file)\<close> returns for a file opened with mode \<^verbatim>\<open>'r'\<close> that holds \<^verbatim>\<open>b\<close>. The three
  patch functions are those of \<^verbatim>\<open>dbml_builder.fix\<close>. Encoding a string as UTF-8 and
  dumping a \<^verbatim>\<open>dict\<close> of three strings are taken not to raise.
\<close>

record env =
  PyDBML :: "bytes \<Rightarrow> error + database"
  patch_ddl :: "str \<Rightarrow> error + str"
  patch_schema :: "str \<Rightarrow> error + str"
  patch_orm :: "str \<Rightarrow> error + str"
  create_models :: "str \<Rightarrow> models_type \<Rightarrow> error + (str \<times> str) list"
  sha1_hex :: "bytes \<Rightarrow> str"
  encode :: "str \<Rightarrow> bytes"
  write_text :: "str \<Rightarrow> error + bytes"
  json_dump :: "json \<Rightarrow> bytes"
  json_load :: "bytes \<Rightarrow> error + json"

subsection \<open>Statements that may raise\<close>

type_synonym 'a prog = "world \<Rightarrow> (error + 'a) \<times> world"

definition returnE :: "'a \<Rightarrow> 'a prog" where
  "returnE x = (\<lambda>w. (Inr x, w))"

definition liftE :: "error + 'a \<Rightarrow> 'a prog" where
  "liftE r = (\<lambda>w. (r, w))"

definition bindE :: "'a prog \<Rightarrow> ('a \<Rightarrow> 'b prog) \<Rightarrow> 'b prog" where
  "bindE m f = (\<lambda>w. case m w of (Inl e, w') \<Rightarrow> (Inl e, w') | (Inr x, w') \<Rightarrow> f x w')"

subsection \<open>The operating system\<close>

definition INFO :: path where "INFO = ''info.json''"
definition SCHEMAS :: path where "SCHEMAS = ''schema.py''"
definition ORM :: path where "ORM = ''orm.py''"

text \<open>\<^verbatim>\<open>os.path.join\<close> of two components (POSIX).\<close>

definition join :: "path \<Rightarrow> path \<Rightarrow> path" where
  "join a b =
     (if b \<noteq> [] \<and> hd b = CHR ''/'' then b
      else if a = [] \<or> last a = CHR ''/'' then a @ b
      else a @ ''/'' @ b)"

text \<open>\<^verbatim>\<open>os.path.exists\<close>: true of a file and of a directory.\<close>

definition exists :: "path \<Rightarrow> bool prog" where
  "exists p = (\<lambda>w. (Inr (fs w p \<noteq> None), w))"

text \<open>\<^verbatim>\<open>with open(p, 'rb') as file: file.read()\<close>, and the same with mode \<^verbatim>\<open>'r'\<close>.\<close>

definition read_file :: "path \<Rightarrow> bytes prog" where
  "read_file p = (\<lambda>w.
     case fs w p of
       None \<Rightarrow> (Inl (FileNotFoundError p), w)
     | Some Dir \<Rightarrow> (Inl (IsADirectoryError p), w)
     | Some (File b) \<Rightarrow> (Inr b, w))"

text \<open>
  \<^verbatim>\<open>with open(p, 'w') as file: file.write(...)\<close>. Opening creates the file or empties it;
  then the bytes are stored, unless encoding them raises. The directory of \<^verbatim>\<open>p\<close> is taken to
  exist (\<^verbatim>\<open>generate_models\<close> has made it by then), and the disk to have room.
\<close>

definition write_file :: "path \<Rightarrow> error + bytes \<Rightarrow> unit prog" where
  "write_file p content = (\<lambda>w.
     case fs w p of
       Some Dir \<Rightarrow> (Inl (IsADirectoryError p), w)
     | _ \<Rightarrow>
       (case content of
          Inl e \<Rightarrow> (Inl e, w\<lparr>fs := (fs w)(p \<mapsto> File [])\<rparr>)
        | Inr b \<Rightarrow> (Inr (), w\<lparr>fs := (fs w)(p \<mapsto> File b)\<rparr>)))"

text \<open>
  \<^verbatim>\<open>os.makedirs(d, exist_ok=True)\<close>. The directories above \<^verbatim>\<open>d\<close> that it creates on the
  way are not recorded.
\<close>

definition makedirs :: "path \<Rightarrow> unit prog" where
  "makedirs d = (\<lambda>w.
     if d = [] then (Inl (FileNotFoundError d), w)
     else case fs w d of
       Some (File b) \<Rightarrow> (Inl (FileExistsError d), w)
     | Some Dir \<Rightarrow> (Inr (), w)
     | None \<Rightarrow> (Inr (), w\<lparr>fs := (fs w)(d \<mapsto> Dir)\<rparr>))"

definition get_stdout :: "stream prog" where
  "get_stdout = (\<lambda>w. (Inr (stdout w), w))"

definition set_stdout :: "stream \<Rightarrow> unit prog" where
  "set_stdout s = (\<lambda>w. (Inr (), w\<lparr>stdout := s\<rparr>))"

subsection \<open>Python values\<close>

text \<open>\<^verbatim>\<open>j[k]\<close> for a string \<^verbatim>\<open>k\<close>: only a \<^verbatim>\<open>dict\<close> can be indexed by a string.\<close>

definition getitem :: "json \<Rightarrow> str \<Rightarrow> error + json" where
  "getitem j k =
     (case j of
        JObj kvs \<Rightarrow> (case map_of kvs k of None \<Rightarrow> Inl (KeyError k) | Some v \<Rightarrow> Inr v)
      | _ \<Rightarrow> Inl TypeError)"

text \<open>\<^verbatim>\<open>j == s\<close> for a \<^verbatim>\<open>str\<close> \<^verbatim>\<open>s\<close>: no other kind of value equals a string.\<close>

definition str_eq :: "json \<Rightarrow> str \<Rightarrow> bool" where
  "str_eq j s = (case j of JStr t \<Rightarrow> t = s | _ \<Rightarrow> False)"

text \<open>The \<^verbatim>\<open>dict\<close> literal bound to \<^verbatim>\<open>info\<close> in \<^verbatim>\<open>generate_models\<close>.\<close>

definition info_dict :: "str \<Rightarrow> str \<Rightarrow> str \<Rightarrow> json" where
  "info_dict version schema_hash orm_hash =
     JObj [(''version'', JStr version),
           (''schema_hash'', JStr schema_hash),
           (''orm_hash'', JStr orm_hash)]"

subsection \<open>The module\<close>

definition get_dbml_version :: "env \<Rightarrow> path \<Rightarrow> str prog" where
  "get_dbml_version E dbml_path =
     bindE (read_file dbml_path) (\<lambda>source.
     bindE (liftE (PyDBML E source)) (\<lambda>dbml.
     liftE (project_note_text dbml)))"

definition verify :: "env \<Rightarrow> str \<Rightarrow> path \<Rightarrow> bool prog" where
  "verify E version generated_dir =
     (let info_path = join generated_dir INFO;
          schema_path = join generated_dir SCHEMAS;
          orm_path = join generated_dir ORM
      in
      bindE (exists info_path) (\<lambda>info_there.
      bindE (if info_there then exists schema_path else returnE False) (\<lambda>both_there.
      if both_there then
        bindE (read_file orm_path) (\<lambda>orm_bytes.
        bindE (read_file schema_path) (\<lambda>schema_bytes.
        bindE (read_file info_path) (\<lambda>info_bytes.
        bindE (liftE (json_load E info_bytes)) (\<lambda>info.
        bindE (liftE (getitem info ''version'')) (\<lambda>v.
        if \<not> str_eq v version then returnE False
        else
          bindE (liftE (getitem info ''schema_hash'')) (\<lambda>s.
          if \<not> str_eq s (sha1_hex E schema_bytes) then returnE False
          else
            bindE (liftE (getitem info ''orm_hash'')) (\<lambda>h.
            returnE (str_eq h (sha1_hex E orm_bytes)))))))))
      else returnE False)))"

text \<open>Lines 69 and 70: the patched DDL of the schema source.\<close>

definition read_ddl :: "env \<Rightarrow> path \<Rightarrow> str prog" where
  "read_ddl E dbml_path =
     bindE (read_file dbml_path) (\<lambda>source.
     bindE (liftE (PyDBML E source)) (\<lambda>dbml.
     bindE (liftE (sql dbml)) (\<lambda>s.
     liftE (patch_ddl E s))))"

text \<open>
  Lines 76 to 82: the two calls of the code generator, each followed by its patch. They
  touch neither the files nor \<^verbatim>\<open>sys.stdout\<close>; what the generator prints goes to the stream
  bound to \<^verbatim>\<open>sys.stdout\<close>, the null device, and is lost.
\<close>

definition create_code :: "env \<Rightarrow> str \<Rightarrow> error + str \<times> str" where
  "create_code E ddl =
     (case create_models E ddl Pydantic of
        Inl e \<Rightarrow> Inl e
      | Inr schemas \<Rightarrow>
        (case map_of schemas ''code'' of
           None \<Rightarrow> Inl (KeyError ''code'')
         | Some schemas_code \<Rightarrow>
           (case patch_schema E schemas_code of
              Inl e \<Rightarrow> Inl e
            | Inr schema_content \<Rightarrow>
              (case create_models E ddl SQLAlchemy of
                 Inl e \<Rightarrow> Inl e
               | Inr orm \<Rightarrow>
                 (case map_of orm ''code'' of
                    None \<Rightarrow> Inl (KeyError ''code'')
                  | Some orm_code \<Rightarrow>
                    (case patch_orm E orm_code of
                       Inl e \<Rightarrow> Inl e
                     | Inr orm_content \<Rightarrow> Inr (schema_content, orm_content)))))))"

text \<open>
  \<^verbatim>\<open>generate_models\<close>, statement by statement. Opening the null device on line 74 is taken
  to succeed. There is no \<^verbatim>\<open>try\<close> in the function: an error at any statement ends it there.
\<close>

definition generate_models :: "env \<Rightarrow> path \<Rightarrow> path \<Rightarrow> unit prog" where
  "generate_models E dbml_path generated_dir =
     bindE (makedirs generated_dir) (\<lambda>_.
     bindE (read_ddl E dbml_path) (\<lambda>ddl.
     bindE get_stdout (\<lambda>visible.
     bindE (set_stdout DevNull) (\<lambda>_.
     bindE (liftE (create_code E ddl)) (\<lambda>(schema_content, orm_content).
     bindE (set_stdout visible) (\<lambda>_.
     bindE (write_file (join generated_dir SCHEMAS) (write_text E schema_content)) (\<lambda>_.
     bindE (write_file (join generated_dir ORM) (write_text E orm_content)) (\<lambda>_.
     bindE (get_dbml_version E dbml_path) (\<lambda>version.
     write_file (join generated_dir INFO)
       (Inr (json_dump E
          (info_dict version
             (sha1_hex E (encode E schema_content))
             (sha1_hex E (encode E orm_content))))))))))))))"

subsection \<open>A sample run\<close>

text \<open>
  One schema source and one set of libraries, to run the module on. The patches leave their
  argument as it is, a text file holds the characters written to it, and the digest of a
  byte string is the byte string itself, so that it has no collisions.
\<close>

definition sample_source :: bytes where
  "sample_source = ''Project shop { Note: '1.0.0' } Table item { id int [pk] }''"

definition sample_database :: database where
  "sample_database =
     \<lparr>project_note_text = Inr ''1.0.0'', sql = Inr ''CREATE TABLE item (id int PRIMARY KEY);''\<rparr>"

definition sample_code :: "models_type \<Rightarrow> str" where
  "sample_code t =
     (case t of
        Pydantic \<Rightarrow> ''class Item(BaseModel): id: int''
      | SQLAlchemy \<Rightarrow> ''item = Table(Column(Integer(), primary_key=True))'')"

text \<open>
  The metadata is stored as its six strings one after the other, each character behind a
  \<^verbatim>\<open>+\<close> and each string closed by a full stop.
\<close>

fun enc_str :: "str \<Rightarrow> bytes" where
  "enc_str [] = ''.''"
| "enc_str (c # s) = CHR ''+'' # c # enc_str s"

fun dec_str :: "bytes \<Rightarrow> (str \<times> bytes) option" where
  "dec_str [] = None"
| "dec_str [c] = (if c = CHR ''.'' then Some ([], []) else None)"
| "dec_str (c # x # r) =
     (if c = CHR ''.'' then Some ([], x # r)
      else if c = CHR ''+'' then
        (case dec_str r of None \<Rightarrow> None | Some (s, r') \<Rightarrow> Some (x # s, r'))
      else None)"

definition sample_dump :: "json \<Rightarrow> bytes" where
  "sample_dump j =
     (case j of
        JObj kvs \<Rightarrow>
          concat (map (\<lambda>(k, v). enc_str k @ (case v of JStr s \<Rightarrow> enc_str s | _ \<Rightarrow> [])) kvs)
      | _ \<Rightarrow> [])"

definition sample_load :: "bytes \<Rightarrow> error + json" where
  "sample_load b =
     (case dec_str b of None \<Rightarrow> Inl JSONDecodeError | Some (k1, r1) \<Rightarrow>
     (case dec_str r1 of None \<Rightarrow> Inl JSONDecodeError | Some (v1, r2) \<Rightarrow>
     (case dec_str r2 of None \<Rightarrow> Inl JSONDecodeError | Some (k2, r3) \<Rightarrow>
     (case dec_str r3 of None \<Rightarrow> Inl JSONDecodeError | Some (v2, r4) \<Rightarrow>
     (case dec_str r4 of None \<Rightarrow> Inl JSONDecodeError | Some (k3, r5) \<Rightarrow>
     (case dec_str r5 of None \<Rightarrow> Inl JSONDecodeError | Some (v3, r6) \<Rightarrow>
       if r6 = [] then Inr (JObj [(k1, JStr v1), (k2, JStr v2), (k3, JStr v3)])
       else Inl JSONDecodeError))))))"

definition sample_env :: env where
  "sample_env =
     \<lparr>PyDBML = (\<lambda>b. if b = sample_source then Inr sample_database
                     else Inl (LibraryError ''syntax error'')),
      patch_ddl = Inr,
      patch_schema = Inr,
      patch_orm = Inr,
      create_models = (\<lambda>ddl t. Inr [(''code'', sample_code t)]),
      sha1_hex = (\<lambda>b. b),
      encode = (\<lambda>s. s),
      write_text = Inr,
      json_dump = sample_dump,
      json_load = sample_load\<rparr>"

definition sample_world :: world where
  "sample_world = \<lparr>fs = [''shop.dbml'' \<mapsto> File sample_source], stdout = Stream 1\<rparr>"

text \<open>The files after \<^verbatim>\<open>generate_models('shop.dbml', 'out')\<close> in the sample run.\<close>

definition generated_world :: world where
  "generated_world =
     \<lparr>fs = [''shop.dbml'' \<mapsto> File sample_source,
             ''out'' \<mapsto> Dir,
             ''out/schema.py'' \<mapsto> File (sample_code Pydantic),
             ''out/orm.py'' \<mapsto> File (sample_code SQLAlchemy),
             ''out/info.json'' \<mapsto> File (sample_dump
                (info_dict ''1.0.0'' (sample_code Pydantic) (sample_code SQLAlchemy)))],
      stdout = Stream 1\<rparr>"

text \<open>The output directory of the sample run once its ORM file has been deleted.\<close>

definition orm_deleted_world :: world where
  "orm_deleted_world =
     \<lparr>fs = [''out'' \<mapsto> Dir,
             ''out/schema.py'' \<mapsto> File (sample_code Pydantic),
             ''out/info.json'' \<mapsto> File (sample_dump
                (info_dict ''1.0.0'' (sample_code Pydantic) (sample_code SQLAlchemy)))],
      stdout = Stream 1\<rparr>"

text \<open>
  An output directory whose metadata file holds only a version, with \<^verbatim>\<open>json.load\<close> as far
  as this one file goes.
\<close>

definition version_only_world :: world where
  \<open>version_only_world =
     \<lparr>fs = [''out'' \<mapsto> Dir,
             ''out/schema.py'' \<mapsto> File (sample_code Pydantic),
             ''out/orm.py'' \<mapsto> File (sample_code SQLAlchemy),
             ''out/info.json'' \<mapsto> File ''{"version": "1.0.0"}''],
      stdout = Stream 1\<rparr>\<close>

definition version_only_env :: env where
  \<open>version_only_env = sample_env
     \<lparr>json_load := (\<lambda>b. if b = ''{"version": "1.0.0"}''
                          then Inr (JObj [(''version'', JStr ''1.0.0'')])
                          else Inl JSONDecodeError)\<rparr>\<close>

text \<open>
  The sample libraries with an ORM generation that raises, and with a schema source that has
  no \<^verbatim>\<open>Project\<close> block, so that \<^verbatim>\<open>dbml.project\<close> is \<^verbatim>\<open>None\<close> and
  \<^verbatim>\<open>dbml.project.note.text\<close> raises.
\<close>

definition orm_fails_env :: env where
  "orm_fails_env = sample_env
     \<lparr>create_models := (\<lambda>ddl t.
        case t of
          Pydantic \<Rightarrow> Inr [(''code'', sample_code Pydantic)]
        | SQLAlchemy \<Rightarrow> Inl (LibraryError ''unsupported column type''))\<rparr>"

definition no_project_env :: env where
  "no_project_env = sample_env
     \<lparr>PyDBML := (\<lambda>b. Inr (sample_database\<lparr>project_note_text := Inl AttributeError\<rparr>))\<rparr>"

text \<open>
  Two platforms on which a text file does not hold the bytes of \<^verbatim>\<open>s.encode()\<close>. On the
  first, \<^verbatim>\<open>file.write\<close> stores every newline as carriage return and line feed, as a file
  opened with mode \<^verbatim>\<open>'w'\<close> does on Windows, and the generated code ends in a newline. On
  the second, the encoding of the locale is GBK, which stores U+00E8 as the bytes A8 A8
  where UTF-8 has C3 A8, and the generated schema code ends in a comment with that letter.
  \<^verbatim>\<open>utf8\<close> is UTF-8 for the code points below 256, the ones a \<^verbatim>\<open>char\<close> can hold;
  \<^verbatim>\<open>gbk\<close> is GBK as far as ASCII and U+00E8 go.
\<close>

definition crlf :: "str \<Rightarrow> bytes" where
  "crlf s = concat (map (\<lambda>c. if c = CHR 0x0A then [CHR 0x0D, CHR 0x0A] else [c]) s)"

definition utf8 :: "str \<Rightarrow> bytes" where
  "utf8 s = concat (map (\<lambda>c.
     if (of_char c :: nat) < 128 then [c]
     else [char_of (192 + (of_char c :: nat) div 64), char_of (128 + (of_char c :: nat) mod 64)]) s)"

definition gbk :: "str \<Rightarrow> bytes" where
  "gbk s = concat (map (\<lambda>c. if c = CHR 0xE8 then [CHR 0xA8, CHR 0xA8] else [c]) s)"

definition crlf_env :: env where
  "crlf_env = sample_env
     \<lparr>create_models := (\<lambda>ddl t. Inr [(''code'', sample_code t @ [CHR 0x0A])]),
      write_text := (\<lambda>s. Inr (crlf s))\<rparr>"

definition accent_code :: str where
  "accent_code = ''id: int  # cl'' @ [CHR 0xE8]"

definition gbk_env :: env where
  "gbk_env = sample_env
     \<lparr>create_models := (\<lambda>ddl t.
        Inr [(''code'', case t of Pydantic \<Rightarrow> accent_code
                         | SQLAlchemy \<Rightarrow> sample_code SQLAlchemy)]),
      encode := utf8,
      write_text := (\<lambda>s. Inr (gbk s))\<rparr>"

text \<open>The files after \<^verbatim>\<open>generate_models('shop.dbml', 'out')\<close> on these two platforms.\<close>

definition crlf_generated_world :: world where
  "crlf_generated_world =
     \<lparr>fs = [''shop.dbml'' \<mapsto> File sample_source,
             ''out'' \<mapsto> Dir,
             ''out/schema.py'' \<mapsto> File (sample_code Pydantic @ [CHR 0x0D, CHR 0x0A]),
             ''out/orm.py'' \<mapsto> File (sample_code SQLAlchemy @ [CHR 0x0D, CHR 0x0A]),
             ''out/info.json'' \<mapsto> File (sample_dump (info_dict ''1.0.0''
                (sample_code Pydantic @ [CHR 0x0A]) (sample_code SQLAlchemy @ [CHR 0x0A])))],
      stdout = Stream 1\<rparr>"

definition gbk_generated_world :: world where
  "gbk_generated_world =
     \<lparr>fs = [''shop.dbml'' \<mapsto> File sample_source,
             ''out'' \<mapsto> Dir,
             ''out/schema.py'' \<mapsto> File (''id: int  # cl'' @ [CHR 0xA8, CHR 0xA8]),
             ''out/orm.py'' \<mapsto> File (sample_code SQLAlchemy),
             ''out/info.json'' \<mapsto> File (sample_dump (info_dict ''1.0.0''
                (''id: int  # cl'' @ [CHR 0xC3, CHR 0xA8]) (sample_code SQLAlchemy)))],
      stdout = Stream 1\<rparr>"

section \<open>Properties of the sync verifier\<close>

text \<open>\<^verbatim>\<open>verify\<close> with the sequencing of its statements written out.\<close>

lemma verify_unfold:
  "verify E version d w =
     (if fs w (join d INFO) \<noteq> None \<and> fs w (join d SCHEMAS) \<noteq> None then
        (case read_file (join d ORM) w of
           (Inl e, _) \<Rightarrow> (Inl e, w)
         | (Inr ob, _) \<Rightarrow>
           (case read_file (join d SCHEMAS) w of
              (Inl e, _) \<Rightarrow> (Inl e, w)
            | (Inr sb, _) \<Rightarrow>
              (case read_file (join d INFO) w of
                 (Inl e, _) \<Rightarrow> (Inl e, w)
               | (Inr ib, _) \<Rightarrow>
                 (case json_load E ib of
                    Inl e \<Rightarrow> (Inl e, w)
                  | Inr info \<Rightarrow>
                    (case getitem info ''version'' of
                       Inl e \<Rightarrow> (Inl e, w)
                     | Inr v \<Rightarrow>
                       if \<not> str_eq v version then (Inr False, w)
                       else
                         (case getitem info ''schema_hash'' of
                            Inl e \<Rightarrow> (Inl e, w)
                          | Inr s \<Rightarrow>
                            if \<not> str_eq s (sha1_hex E sb) then (Inr False, w)
                            else
                              (case getitem info ''orm_hash'' of
                                 Inl e \<Rightarrow> (Inl e, w)
                               | Inr h \<Rightarrow> (Inr (str_eq h (sha1_hex E ob)), w))))))))
      else (Inr False, w))"
  by (auto simp: verify_def Let_def bindE_def exists_def read_file_def liftE_def returnE_def
      split: option.splits node.splits sum.splits)

lemma str_eq_iff: "str_eq j s \<longleftrightarrow> j = JStr s"
  by (cases j) (auto simp: str_eq_def)

text \<open>The sample metadata format reads back what it writes.\<close>

lemma dec_enc_str: "dec_str (enc_str s @ r) = Some (s, r)"
proof (induction s)
  case Nil
  show ?case by (cases r) simp_all
next
  case (Cons c s)
  then show ?case by simp
qed

lemma sample_load_dump:
  "sample_load (sample_dump (info_dict v s h)) = Inr (info_dict v s h)"
proof -
  have "sample_dump (info_dict v s h) =
          enc_str ''version'' @ enc_str v @ enc_str ''schema_hash'' @ enc_str s
          @ enc_str ''orm_hash'' @ enc_str h @ []"
    by (simp add: sample_dump_def info_dict_def)
  then show ?thesis
    by (simp only: sample_load_def dec_enc_str info_dict_def option.case prod.case
        simp_thms if_True)
qed

lemmas sample_defs =
  sample_env_def sample_world_def sample_source_def sample_database_def sample_code_def
  generated_world_def orm_deleted_world_def version_only_world_def version_only_env_def
  join_def INFO_def SCHEMAS_def ORM_def

text \<open>
  C9: \<^verbatim>\<open>verify\<close> creates, modifies and deletes nothing. Whether it returns true, returns
  false or raises, the state after the call (every file and directory, and
  \<^verbatim>\<open>sys.stdout\<close>) is the state before it.
\<close>

theorem verify_read_only: "snd (verify E version generated_dir w) = w"
  by (auto simp: verify_unfold split: prod.splits sum.splits)

text \<open>
  C5: when \<^verbatim>\<open>info.json\<close> or \<^verbatim>\<open>schema.py\<close> does not exist in the output directory, as in
  a directory that was never generated, \<^verbatim>\<open>verify\<close> returns false and raises nothing.
\<close>

theorem verify_missing_returns_False:
  assumes "fs w (join generated_dir INFO) = None \<or> fs w (join generated_dir SCHEMAS) = None"
  shows "verify E version generated_dir w = (Inr False, w)"
  using assms by (auto simp: verify_unfold)

theorem verify_missing_returns_False_witness:
  "verify sample_env ''1.0.0'' ''out'' sample_world = (Inr False, sample_world)"
  using verify_missing_returns_False [of sample_world "''out''" sample_env "''1.0.0''"]
  by (simp add: sample_defs)

text \<open>
  C4: when \<^verbatim>\<open>info.json\<close> and \<^verbatim>\<open>schema.py\<close> exist and \<^verbatim>\<open>orm.py\<close> does not,
  \<^verbatim>\<open>verify\<close> does not return false: opening \<^verbatim>\<open>orm.py\<close>, the first file it reads, raises
  \<^verbatim>\<open>FileNotFoundError\<close>.
\<close>

theorem verify_orm_missing_raises:
  assumes "fs w (join generated_dir INFO) \<noteq> None"
    and "fs w (join generated_dir SCHEMAS) \<noteq> None"
    and "fs w (join generated_dir ORM) = None"
  shows "verify E version generated_dir w = (Inl (FileNotFoundError (join generated_dir ORM)), w)"
  using assms by (simp add: verify_unfold read_file_def)

theorem verify_orm_missing_raises_witness:
  "verify sample_env ''1.0.0'' ''out'' orm_deleted_world
     = (Inl (FileNotFoundError ''out/orm.py''), orm_deleted_world)"
  using verify_orm_missing_raises [of orm_deleted_world "''out''" sample_env "''1.0.0''"]
  by (simp add: sample_defs)

text \<open>
  C2: when the three files exist and the metadata file parses as a JSON object with the
  keys \<^verbatim>\<open>version\<close>, \<^verbatim>\<open>schema_hash\<close> and \<^verbatim>\<open>orm_hash\<close>, \<^verbatim>\<open>verify\<close> returns, and it
  returns true exactly when the recorded version is the supplied string, the recorded schema
  hash is the digest of the bytes of \<^verbatim>\<open>schema.py\<close>, and the recorded ORM hash is the digest
  of the bytes of \<^verbatim>\<open>orm.py\<close>.
\<close>

theorem verify_iff:
  assumes "fs w (join generated_dir INFO) = Some (File info_bytes)"
    and "fs w (join generated_dir SCHEMAS) = Some (File schema_bytes)"
    and "fs w (join generated_dir ORM) = Some (File orm_bytes)"
    and "json_load E info_bytes = Inr (JObj info)"
    and "map_of info ''version'' = Some recorded_version"
    and "map_of info ''schema_hash'' = Some recorded_schema_hash"
    and "map_of info ''orm_hash'' = Some recorded_orm_hash"
  shows "verify E version generated_dir w =
           (Inr (recorded_version = JStr version
                 \<and> recorded_schema_hash = JStr (sha1_hex E schema_bytes)
                 \<and> recorded_orm_hash = JStr (sha1_hex E orm_bytes)), w)"
  using assms by (simp add: verify_unfold read_file_def getitem_def str_eq_iff)

theorem verify_iff_witness:
  "verify sample_env ''1.0.0'' ''out'' generated_world = (Inr True, generated_world)
   \<and> verify sample_env ''1.0.1'' ''out'' generated_world = (Inr False, generated_world)"
proof -
  let ?info = "[(''version'', JStr ''1.0.0''), (''schema_hash'', JStr (sample_code Pydantic)),
                (''orm_hash'', JStr (sample_code SQLAlchemy))]"
  let ?bytes = "sample_dump (info_dict ''1.0.0'' (sample_code Pydantic) (sample_code SQLAlchemy))"
  have files: "fs generated_world (join ''out'' INFO) = Some (File ?bytes)"
    "fs generated_world (join ''out'' SCHEMAS) = Some (File (sample_code Pydantic))"
    "fs generated_world (join ''out'' ORM) = Some (File (sample_code SQLAlchemy))"
    by (simp_all add: generated_world_def join_def INFO_def SCHEMAS_def ORM_def)
  have load: "json_load sample_env ?bytes = Inr (JObj ?info)"
    using sample_load_dump [of "''1.0.0''" "sample_code Pydantic" "sample_code SQLAlchemy"]
    by (simp add: sample_env_def info_dict_def)
  have keys: "map_of ?info ''version'' = Some (JStr ''1.0.0'')"
    "map_of ?info ''schema_hash'' = Some (JStr (sample_code Pydantic))"
    "map_of ?info ''orm_hash'' = Some (JStr (sample_code SQLAlchemy))"
    by simp_all
  have digests: "sha1_hex sample_env = (\<lambda>b. b)"
    by (simp add: sample_env_def)
  show ?thesis
    using verify_iff [OF files load keys, of "''1.0.0''"]
      verify_iff [OF files load keys, of "''1.0.1''"]
    by (simp add: digests)
qed

text \<open>
  C6, as the code has it. Let the metadata file be a regular file and \<^verbatim>\<open>schema.py\<close>
  exist. Then \<^verbatim>\<open>verify\<close> raises when the metadata does not parse, when it parses to
  something that is not an object, when the object has no \<^verbatim>\<open>version\<close>, when it has the
  supplied version and no \<^verbatim>\<open>schema_hash\<close>, and when it has the supplied version and the
  digest of \<^verbatim>\<open>schema.py\<close> and no \<^verbatim>\<open>orm_hash\<close>. But \<^verbatim>\<open>and\<close> stops at the first
  comparison that is false: with the three files readable, a recorded version other than
  the supplied one, or a recorded schema hash other than the digest, makes \<^verbatim>\<open>verify\<close>
  return false whatever keys are missing after it.
\<close>

theorem verify_malformed_metadata:
  assumes "fs w (join generated_dir INFO) = Some (File info_bytes)"
    and "fs w (join generated_dir SCHEMAS) \<noteq> None"
  shows
    "(\<forall>e. json_load E info_bytes = Inl e \<longrightarrow>
        (\<exists>e'. verify E version generated_dir w = (Inl e', w)))
     \<and> (\<forall>j. json_load E info_bytes = Inr j \<and> (\<forall>info. j \<noteq> JObj info) \<longrightarrow>
        (\<exists>e'. verify E version generated_dir w = (Inl e', w)))
     \<and> (\<forall>info. json_load E info_bytes = Inr (JObj info) \<longrightarrow>
          (map_of info ''version'' = None \<longrightarrow>
             (\<exists>e'. verify E version generated_dir w = (Inl e', w)))
          \<and> (map_of info ''version'' = Some (JStr version)
               \<and> map_of info ''schema_hash'' = None \<longrightarrow>
             (\<exists>e'. verify E version generated_dir w = (Inl e', w)))
          \<and> (map_of info ''version'' = Some (JStr version)
               \<and> (\<forall>b. fs w (join generated_dir SCHEMAS) = Some (File b) \<longrightarrow>
                      map_of info ''schema_hash'' = Some (JStr (sha1_hex E b)))
               \<and> map_of info ''orm_hash'' = None \<longrightarrow>
             (\<exists>e'. verify E version generated_dir w = (Inl e', w)))
          \<and> (\<forall>schema_bytes orm_bytes recorded.
               fs w (join generated_dir SCHEMAS) = Some (File schema_bytes)
               \<and> fs w (join generated_dir ORM) = Some (File orm_bytes)
               \<and> map_of info ''version'' = Some recorded \<and> recorded \<noteq> JStr version \<longrightarrow>
             verify E version generated_dir w = (Inr False, w))
          \<and> (\<forall>schema_bytes orm_bytes recorded.
               fs w (join generated_dir SCHEMAS) = Some (File schema_bytes)
               \<and> fs w (join generated_dir ORM) = Some (File orm_bytes)
               \<and> map_of info ''version'' = Some (JStr version)
               \<and> map_of info ''schema_hash'' = Some recorded
               \<and> recorded \<noteq> JStr (sha1_hex E schema_bytes) \<longrightarrow>
             verify E version generated_dir w = (Inr False, w)))"
  using assms
  by (auto simp: verify_unfold read_file_def getitem_def str_eq_iff
      split: option.splits node.splits sum.splits json.splits)

theorem verify_malformed_metadata_witness:
  \<open>(\<exists>e'. verify version_only_env ''1.0.0'' ''out'' version_only_world
            = (Inl e', version_only_world))
   \<and> verify version_only_env ''2.0.0'' ''out'' version_only_world
       = (Inr False, version_only_world)\<close>
proof -
  have info: \<open>fs version_only_world (join ''out'' INFO) = Some (File ''{"version": "1.0.0"}'')\<close>
    by (simp add: sample_defs)
  have schema: "fs version_only_world (join ''out'' SCHEMAS) = Some (File (sample_code Pydantic))"
    by (simp add: version_only_world_def join_def SCHEMAS_def)
  have orm: "fs version_only_world (join ''out'' ORM) = Some (File (sample_code SQLAlchemy))"
    by (simp add: version_only_world_def join_def ORM_def)
  have there: "fs version_only_world (join ''out'' SCHEMAS) \<noteq> None"
    using schema by simp
  have load: \<open>json_load version_only_env ''{"version": "1.0.0"}''
                = Inr (JObj [(''version'', JStr ''1.0.0'')])\<close>
    by (simp add: version_only_env_def)
  show ?thesis
    using verify_malformed_metadata [OF info there, of version_only_env "''1.0.0''"]
      verify_malformed_metadata [OF info there, of version_only_env "''2.0.0''"]
      load schema orm
    by simp
qed

text \<open>
  The sentence of the specification behind C6 fails at a metadata file that holds a version
  and nothing else: the existence checks pass, the file parses as an object without
  \<^verbatim>\<open>schema_hash\<close> and \<^verbatim>\<open>orm_hash\<close>, and \<^verbatim>\<open>verify('2.0.0', 'out')\<close> returns false.
\<close>

theorem verify_missing_keys_counterexample:
  \<open>fs version_only_world (join ''out'' INFO) \<noteq> None
   \<and> fs version_only_world (join ''out'' SCHEMAS) \<noteq> None
   \<and> (\<exists>b info. fs version_only_world (join ''out'' INFO) = Some (File b)
          \<and> json_load version_only_env b = Inr (JObj info)
          \<and> map_of info ''schema_hash'' = None \<and> map_of info ''orm_hash'' = None)
   \<and> verify version_only_env ''2.0.0'' ''out'' version_only_world
       = (Inr False, version_only_world)\<close>
  by (simp add: verify_unfold read_file_def getitem_def str_eq_iff sample_defs)

section \<open>Properties of the model generator\<close>

text \<open>The three output files have different names, none of them the directory's.\<close>

lemma paths_distinct [simp]:
  "join d SCHEMAS \<noteq> join d ORM" "join d ORM \<noteq> join d SCHEMAS"
  "join d SCHEMAS \<noteq> join d INFO" "join d INFO \<noteq> join d SCHEMAS"
  "join d ORM \<noteq> join d INFO" "join d INFO \<noteq> join d ORM"
  "join d SCHEMAS \<noteq> d" "join d ORM \<noteq> d" "join d INFO \<noteq> d"
  by (simp_all add: join_def SCHEMAS_def ORM_def INFO_def)

text \<open>Sequencing, and the statements that leave the state as it is.\<close>

lemma bindE_Inr: "m w = (Inr x, w1) \<Longrightarrow> bindE m f w = f x w1"
  by (simp add: bindE_def)

lemma bindE_Inl: "m w = (Inl e, w1) \<Longrightarrow> bindE m f w = (Inl e, w1)"
  by (simp add: bindE_def)

lemma bindE_eq_Inr:
  "bindE m f w = (Inr y, w') \<longleftrightarrow> (\<exists>x w1. m w = (Inr x, w1) \<and> f x w1 = (Inr y, w'))"
  by (auto simp: bindE_def split: prod.splits sum.splits)

lemma liftE_eq [simp]: "liftE r w = (r', w') \<longleftrightarrow> r = r' \<and> w' = w"
  by (auto simp: liftE_def)

lemma get_stdout_eq [simp]: "get_stdout w = (r, w') \<longleftrightarrow> r = Inr (stdout w) \<and> w' = w"
  by (auto simp: get_stdout_def)

lemma set_stdout_eq [simp]: "set_stdout s w = (r, w') \<longleftrightarrow> r = Inr () \<and> w' = w\<lparr>stdout := s\<rparr>"
  by (auto simp: set_stdout_def)

lemma read_ddl_world: "read_ddl E p w = (r, w') \<Longrightarrow> w' = w"
  by (auto simp: read_ddl_def bindE_def read_file_def liftE_def
      split: option.splits node.splits sum.splits)

lemma get_dbml_version_world: "get_dbml_version E p w = (r, w') \<Longrightarrow> w' = w"
  by (auto simp: get_dbml_version_def bindE_def read_file_def liftE_def
      split: option.splits node.splits sum.splits)

lemma get_dbml_version_cong:
  "fs w p = fs w2 p \<Longrightarrow> fst (get_dbml_version E p w) = fst (get_dbml_version E p w2)"
  by (auto simp: get_dbml_version_def bindE_def read_file_def liftE_def
      split: option.splits node.splits sum.splits)

lemma write_file_eq_Inr:
  "write_file q c w = (Inr u, w') \<longleftrightarrow>
     fs w q \<noteq> Some Dir \<and> (\<exists>b. c = Inr b \<and> w' = w\<lparr>fs := (fs w)(q \<mapsto> File b)\<rparr>)"
  by (auto simp: write_file_def split: option.splits node.splits sum.splits)

lemma makedirs_eq_Inr:
  "makedirs d w = (Inr u, w1) \<Longrightarrow>
     stdout w1 = stdout w \<and> (fs w1 = fs w \<or> fs w1 = (fs w)(d \<mapsto> Dir))"
  by (auto simp: makedirs_def split: option.splits node.splits if_splits)

text \<open>
  A generation that returns has made the directory, read the DDL, generated both texts,
  written both files, read the version and written the metadata, in this order.
\<close>

lemma generate_models_success:
  assumes "generate_models E p d w = (Inr u, w')"
  obtains w1 ddl sc oc bs bo v where
    "makedirs d w = (Inr (), w1)"
    "read_ddl E p w1 = (Inr ddl, w1)"
    "create_code E ddl = Inr (sc, oc)"
    "write_text E sc = Inr bs" "write_text E oc = Inr bo"
    "fst (get_dbml_version E p
       (w1\<lparr>fs := (fs w1)(join d SCHEMAS \<mapsto> File bs, join d ORM \<mapsto> File bo)\<rparr>)) = Inr v"
    "w' = w1\<lparr>fs := (fs w1)(join d SCHEMAS \<mapsto> File bs, join d ORM \<mapsto> File bo,
            join d INFO \<mapsto> File (json_dump E
              (info_dict v (sha1_hex E (encode E sc)) (sha1_hex E (encode E oc)))))\<rparr>"
  using assms
  apply (simp add: generate_models_def bindE_eq_Inr write_file_eq_Inr split_paired_all)
  apply (elim exE conjE)
  apply (frule read_ddl_world)
  apply (frule get_dbml_version_world)
  apply (frule makedirs_eq_Inr)
  apply simp
  done

text \<open>A generation that fails before line 86 ends in the state \<^verbatim>\<open>makedirs\<close> left,
  but for \<^verbatim>\<open>sys.stdout\<close>.\<close>

lemma generate_models_read_fails:
  assumes "makedirs d w = (Inr (), w1)" and "read_ddl E p w1 = (Inl e, w2)"
  shows "generate_models E p d w = (Inl e, w1)"
  using assms read_ddl_world [OF assms(2)]
  by (simp add: generate_models_def bindE_Inr bindE_Inl)

lemma generate_models_code_fails:
  assumes "makedirs d w = (Inr (), w1)" and "read_ddl E p w1 = (Inr ddl, w2)"
    and "create_code E ddl = Inl e"
  shows "generate_models E p d w = (Inl e, w1\<lparr>stdout := DevNull\<rparr>)"
  using assms read_ddl_world [OF assms(2)]
  by (simp add: generate_models_def bindE_Inr bindE_Inl get_stdout_def set_stdout_def liftE_def)

text \<open>
  C10: when parsing the schema, \<^verbatim>\<open>dbml.sql\<close>, the DDL patch (lines 69 and 70), either call
  of the code generator or a patch of its output (lines 76 to 82) raises, \<^verbatim>\<open>generate_models\<close>
  raises the same error and \<^verbatim>\<open>schema.py\<close>, \<^verbatim>\<open>orm.py\<close> and \<^verbatim>\<open>info.json\<close> are as they
  were: every write comes after both generator calls, and the only change to the file system
  is the output directory that \<^verbatim>\<open>makedirs\<close> may have created.
\<close>

theorem generate_models_failure_writes_nothing:
  assumes "makedirs generated_dir w = (Inr (), w1)"
    and "read_ddl E dbml_path w1 = (Inl e, w2)
         \<or> (\<exists>ddl. read_ddl E dbml_path w1 = (Inr ddl, w2) \<and> create_code E ddl = Inl e)"
  shows "\<exists>w'. generate_models E dbml_path generated_dir w = (Inl e, w')
           \<and> fs w' (join generated_dir SCHEMAS) = fs w (join generated_dir SCHEMAS)
           \<and> fs w' (join generated_dir ORM) = fs w (join generated_dir ORM)
           \<and> fs w' (join generated_dir INFO) = fs w (join generated_dir INFO)
           \<and> (fs w' = fs w \<or> fs w' = (fs w)(generated_dir \<mapsto> Dir))"
proof -
  from assms(1) have dir: "fs w1 = fs w \<or> fs w1 = (fs w)(generated_dir \<mapsto> Dir)"
    by (simp add: makedirs_eq_Inr)
  from assms(2) consider
      "generate_models E dbml_path generated_dir w = (Inl e, w1)"
    | "generate_models E dbml_path generated_dir w = (Inl e, w1\<lparr>stdout := DevNull\<rparr>)"
    using generate_models_read_fails [OF assms(1)] generate_models_code_fails [OF assms(1)]
    by blast
  then show ?thesis
    using dir by cases auto
qed

text \<open>The sample run.\<close>

lemmas run_defs =
  generate_models_def read_ddl_def create_code_def get_dbml_version_def makedirs_def
  read_file_def write_file_def get_stdout_def set_stdout_def bindE_def liftE_def info_dict_def

lemma sample_makedirs:
  "makedirs ''out'' sample_world = (Inr (), sample_world\<lparr>fs := (fs sample_world)(''out'' \<mapsto> Dir)\<rparr>)"
  by (simp add: makedirs_def sample_world_def)

lemma sample_read_ddl:
  "read_ddl E ''shop.dbml'' (sample_world\<lparr>fs := (fs sample_world)(''out'' \<mapsto> Dir)\<rparr>)
     = (case PyDBML E sample_source of Inl e \<Rightarrow> Inl e
        | Inr db \<Rightarrow> (case sql db of Inl e \<Rightarrow> Inl e | Inr s \<Rightarrow> patch_ddl E s),
        sample_world\<lparr>fs := (fs sample_world)(''out'' \<mapsto> Dir)\<rparr>)"
  by (simp add: read_ddl_def read_file_def bindE_def liftE_def sample_world_def
      split: sum.splits)

theorem generate_models_failure_writes_nothing_witness:
  "\<exists>w'. generate_models orm_fails_env ''shop.dbml'' ''out'' sample_world
            = (Inl (LibraryError ''unsupported column type''), w')
     \<and> fs w' ''out/schema.py'' = None \<and> fs w' ''out/orm.py'' = None
     \<and> fs w' ''out/info.json'' = None"
proof -
  let ?w1 = "sample_world\<lparr>fs := (fs sample_world)(''out'' \<mapsto> Dir)\<rparr>"
  let ?ddl = "''CREATE TABLE item (id int PRIMARY KEY);''"
  have ddl: "read_ddl orm_fails_env ''shop.dbml'' ?w1 = (Inr ?ddl, ?w1)"
    by (simp add: sample_read_ddl orm_fails_env_def sample_env_def sample_database_def)
  have code: "create_code orm_fails_env ?ddl = Inl (LibraryError ''unsupported column type'')"
    by (simp add: create_code_def orm_fails_env_def sample_env_def)
  have "read_ddl orm_fails_env ''shop.dbml'' ?w1 = (Inl (LibraryError ''unsupported column type''), ?w1)
        \<or> (\<exists>ddl. read_ddl orm_fails_env ''shop.dbml'' ?w1 = (Inr ddl, ?w1)
              \<and> create_code orm_fails_env ddl = Inl (LibraryError ''unsupported column type''))"
    using ddl code by blast
  from generate_models_failure_writes_nothing [OF sample_makedirs this]
  show ?thesis
    by (simp add: join_def SCHEMAS_def ORM_def INFO_def sample_world_def) blast
qed

lemma sample_run:
  "generate_models sample_env ''shop.dbml'' ''out'' sample_world = (Inr (), generated_world)"
  by (simp add: run_defs sample_defs)

text \<open>
  Where \<^verbatim>\<open>generate_models\<close> leaves \<^verbatim>\<open>sys.stdout\<close>. Line 84 is reached only when lines 76 to
  82 have run to their end: \<^verbatim>\<open>sys.stdout\<close> is its original value when the function
  returns and when it raises before the redirection or after line 84, and it is the null
  device when a call of the code generator or a patch of its output raises.
\<close>

lemma generate_models_stdout:
  assumes "generate_models E dbml_path generated_dir w = (r, w')"
  shows "(r = Inr () \<longrightarrow> stdout w' = stdout w)
     \<and> (\<forall>w1 ddl e. makedirs generated_dir w = (Inr (), w1)
            \<and> read_ddl E dbml_path w1 = (Inr ddl, w1) \<and> create_code E ddl = Inl e
          \<longrightarrow> r = Inl e \<and> stdout w' = DevNull)
     \<and> ((\<forall>w1 ddl e. makedirs generated_dir w = (Inr (), w1)
            \<and> read_ddl E dbml_path w1 = (Inr ddl, w1) \<longrightarrow> create_code E ddl \<noteq> Inl e)
          \<longrightarrow> stdout w' = stdout w)"
proof (intro conjI allI impI)
  assume "r = Inr ()"
  with assms show "stdout w' = stdout w"
    by (auto elim!: generate_models_success dest: makedirs_eq_Inr)
next
  fix w1 ddl e
  assume "makedirs generated_dir w = (Inr (), w1)
            \<and> read_ddl E dbml_path w1 = (Inr ddl, w1) \<and> create_code E ddl = Inl e"
  then have "generate_models E dbml_path generated_dir w = (Inl e, w1\<lparr>stdout := DevNull\<rparr>)"
    by (simp add: generate_models_code_fails)
  with assms show "r = Inl e" and "stdout w' = DevNull"
    by auto
next
  assume ok: "\<forall>w1 ddl e. makedirs generated_dir w = (Inr (), w1)
            \<and> read_ddl E dbml_path w1 = (Inr ddl, w1) \<longrightarrow> create_code E ddl \<noteq> Inl e"
  show "stdout w' = stdout w"
  proof (cases "makedirs generated_dir w")
    case (Pair r1 w1)
    show ?thesis
    proof (cases r1)
      case (Inl e)
      with Pair assms show ?thesis
        by (auto simp: generate_models_def bindE_Inl makedirs_def split: if_splits option.splits node.splits)
    next
      case (Inr u)
      with Pair have mk: "makedirs generated_dir w = (Inr (), w1)" by simp
      then have out: "stdout w1 = stdout w" by (simp add: makedirs_eq_Inr)
      obtain r2 w2 where rd: "read_ddl E dbml_path w1 = (r2, w2)" by (cases "read_ddl E dbml_path w1")
      then have [simp]: "w2 = w1" by (rule read_ddl_world)
      show ?thesis
      proof (cases r2)
        case (Inl e)
        with rd mk assms out show ?thesis
          by (simp add: generate_models_read_fails)
      next
        case (Inr ddl)
        with rd mk ok obtain sc oc where code: "create_code E ddl = Inr (sc, oc)"
          by (cases "create_code E ddl") auto
        from assms mk rd Inr code out show ?thesis
          by (auto simp: generate_models_def bindE_def liftE_def get_stdout_def set_stdout_def
              write_file_def dest!: get_dbml_version_world
              split: option.splits node.splits sum.splits prod.splits)
      qed
    qed
  qed
qed

lemma orm_fails_run:
  "generate_models orm_fails_env ''shop.dbml'' ''out'' sample_world
     = (Inl (LibraryError ''unsupported column type''),
        sample_world\<lparr>fs := (fs sample_world)(''out'' \<mapsto> Dir), stdout := DevNull\<rparr>)"
  by (simp add: run_defs orm_fails_env_def sample_defs)

text \<open>
  C3 asks that \<^verbatim>\<open>sys.stdout\<close> be restored on every path out of \<^verbatim>\<open>generate_models\<close>,
  errors included. The code restores it on line 84 and has no \<^verbatim>\<open>try\<close> around lines 76 to
  82. In the sample run with an ORM generation that raises, \<^verbatim>\<open>sys.stdout\<close> is a stream of
  the caller before the call, the error leaves \<^verbatim>\<open>generate_models\<close>, and \<^verbatim>\<open>sys.stdout\<close>
  is the null device after it.
\<close>

theorem generate_models_leaves_stdout_redirected:
  "stdout sample_world = Stream 1
   \<and> fst (generate_models orm_fails_env ''shop.dbml'' ''out'' sample_world)
       = Inl (LibraryError ''unsupported column type'')
   \<and> stdout (snd (generate_models orm_fails_env ''shop.dbml'' ''out'' sample_world)) = DevNull"
  by (simp add: orm_fails_run) (simp add: sample_world_def)

text \<open>
  C7, as the code has it: there is a failing execution of \<^verbatim>\<open>generate_models\<close> that leaves
  a partial artifact set and does not roll it back. In an output directory that held none of
  the three files, \<^verbatim>\<open>schema.py\<close> and \<^verbatim>\<open>orm.py\<close> are written, reading the version on
  line 94 then raises, and \<^verbatim>\<open>info.json\<close> is not written.
\<close>

theorem generate_models_partial_artifacts:
  "\<exists>E dbml_path generated_dir w e w'.
     generate_models E dbml_path generated_dir w = (Inl e, w')
     \<and> fs w (join generated_dir SCHEMAS) = None
     \<and> fs w (join generated_dir ORM) = None
     \<and> fs w (join generated_dir INFO) = None
     \<and> (\<exists>b. fs w' (join generated_dir SCHEMAS) = Some (File b))
     \<and> (\<exists>b. fs w' (join generated_dir ORM) = Some (File b))
     \<and> fs w' (join generated_dir INFO) = None"
proof -
  have "generate_models no_project_env ''shop.dbml'' ''out'' sample_world
          = (Inl AttributeError,
             sample_world\<lparr>fs := (fs sample_world)(''out'' \<mapsto> Dir,
               ''out/schema.py'' \<mapsto> File (sample_code Pydantic),
               ''out/orm.py'' \<mapsto> File (sample_code SQLAlchemy))\<rparr>)"
    by (simp add: run_defs no_project_env_def sample_defs)
  then show ?thesis
    by (intro exI [of _ no_project_env] exI [of _ "''shop.dbml''"] exI [of _ "''out''"]
        exI [of _ sample_world] exI [of _ AttributeError]
        exI [of _ "sample_world\<lparr>fs := (fs sample_world)(''out'' \<mapsto> Dir,
               ''out/schema.py'' \<mapsto> File (sample_code Pydantic),
               ''out/orm.py'' \<mapsto> File (sample_code SQLAlchemy))\<rparr>"])
      (simp add: sample_world_def join_def SCHEMAS_def ORM_def INFO_def)
qed

text \<open>
  The example that C7 gives is not such an execution. When the ORM generation raises, after
  a schema generation and patch that succeeded, \<^verbatim>\<open>schema.py\<close> is what it was before the
  call: the ORM generation on line 80 comes before the write on line 86.
\<close>

lemma create_code_orm_fails:
  assumes "create_models E ddl Pydantic = Inr schemas"
    and "map_of schemas ''code'' = Some code"
    and "patch_schema E code = Inr schema_content"
    and "create_models E ddl SQLAlchemy = Inl e"
  shows "create_code E ddl = Inl e"
  using assms by (simp add: create_code_def)

theorem orm_failure_leaves_schema_counterexample:
  "\<not> (\<exists>E dbml_path generated_dir w w1 ddl schemas code schema_content e w'.
        makedirs generated_dir w = (Inr (), w1)
        \<and> read_ddl E dbml_path w1 = (Inr ddl, w1)
        \<and> create_models E ddl Pydantic = Inr schemas
        \<and> map_of schemas ''code'' = Some code
        \<and> patch_schema E code = Inr schema_content
        \<and> create_models E ddl SQLAlchemy = Inl e
        \<and> generate_models E dbml_path generated_dir w = (Inl e, w')
        \<and> fs w' (join generated_dir SCHEMAS) \<noteq> fs w (join generated_dir SCHEMAS))"
proof
  assume "\<exists>E dbml_path generated_dir w w1 ddl schemas code schema_content e w'.
        makedirs generated_dir w = (Inr (), w1)
        \<and> read_ddl E dbml_path w1 = (Inr ddl, w1)
        \<and> create_models E ddl Pydantic = Inr schemas
        \<and> map_of schemas ''code'' = Some code
        \<and> patch_schema E code = Inr schema_content
        \<and> create_models E ddl SQLAlchemy = Inl e
        \<and> generate_models E dbml_path generated_dir w = (Inl e, w')
        \<and> fs w' (join generated_dir SCHEMAS) \<noteq> fs w (join generated_dir SCHEMAS)"
  then obtain E p d w w1 ddl schemas code sc e w' where
    mk: "makedirs d w = (Inr (), w1)" and rd: "read_ddl E p w1 = (Inr ddl, w1)"
    and steps: "create_models E ddl Pydantic = Inr schemas" "map_of schemas ''code'' = Some code"
      "patch_schema E code = Inr sc" "create_models E ddl SQLAlchemy = Inl e"
    and run: "generate_models E p d w = (Inl e, w')"
    and changed: "fs w' (join d SCHEMAS) \<noteq> fs w (join d SCHEMAS)"
    by blast
  from steps have "create_code E ddl = Inl e" by (rule create_code_orm_fails)
  with mk rd have "generate_models E p d w = (Inl e, w1\<lparr>stdout := DevNull\<rparr>)"
    by (rule generate_models_code_fails)
  with run have "fs w' = fs w1" by auto
  moreover from mk have "fs w1 = fs w \<or> fs w1 = (fs w)(d \<mapsto> Dir)"
    by (simp add: makedirs_eq_Inr)
  ultimately have "fs w' (join d SCHEMAS) = fs w (join d SCHEMAS)" by auto
  with changed show False by simp
qed

text \<open>The files of a generation that succeeded, when text files hold the UTF-8 bytes.\<close>

lemma generated_files:
  assumes gen: "generate_models E p d w = (Inr (), w')"
    and text_io: "\<forall>s. write_text E s = Inr (encode E s)"
  obtains sc oc v where
    "fs w' (join d SCHEMAS) = Some (File (encode E sc))"
    "fs w' (join d ORM) = Some (File (encode E oc))"
    "fs w' (join d INFO) = Some (File (json_dump E
        (info_dict v (sha1_hex E (encode E sc)) (sha1_hex E (encode E oc)))))"
    "fs w' p = fs w p \<longrightarrow> fst (get_dbml_version E p w') = Inr v"
proof -
  from gen obtain w1 ddl sc oc bs bo v where
    mk: "makedirs d w = (Inr (), w1)"
    and wr: "write_text E sc = Inr bs" "write_text E oc = Inr bo"
    and ver: "fst (get_dbml_version E p
       (w1\<lparr>fs := (fs w1)(join d SCHEMAS \<mapsto> File bs, join d ORM \<mapsto> File bo)\<rparr>)) = Inr v"
    and w': "w' = w1\<lparr>fs := (fs w1)(join d SCHEMAS \<mapsto> File bs, join d ORM \<mapsto> File bo,
            join d INFO \<mapsto> File (json_dump E
              (info_dict v (sha1_hex E (encode E sc)) (sha1_hex E (encode E oc)))))\<rparr>"
    by (rule generate_models_success)
  let ?w2 = "w1\<lparr>fs := (fs w1)(join d SCHEMAS \<mapsto> File bs, join d ORM \<mapsto> File bo)\<rparr>"
  from wr text_io have bs: "bs = encode E sc" and bo: "bo = encode E oc" by simp_all
  have same: "fs w' p = fs w p \<longrightarrow> fst (get_dbml_version E p w') = Inr v"
  proof
    assume unchanged: "fs w' p = fs w p"
    have "fs ?w2 p = fs w' p"
    proof (cases "p = join d INFO")
      case True
      from mk have "fs w1 (join d INFO) = fs w (join d INFO)"
        by (auto dest: makedirs_eq_Inr)
      with True unchanged show ?thesis by simp
    next
      case False
      then show ?thesis by (simp add: w')
    qed
    with ver show "fst (get_dbml_version E p w') = Inr v"
      using get_dbml_version_cong [of ?w2 p w' E] by simp
  qed
  have written: "fs w' (join d SCHEMAS) = Some (File (encode E sc))"
    "fs w' (join d ORM) = Some (File (encode E oc))"
    "fs w' (join d INFO) = Some (File (json_dump E
        (info_dict v (sha1_hex E (encode E sc)) (sha1_hex E (encode E oc)))))"
    by (simp_all add: w' bs bo)
  show thesis
    by (rule that [OF written same])
qed

text \<open>
  Where a text file holds the bytes of \<^verbatim>\<open>s.encode()\<close> after \<^verbatim>\<open>file.write(s)\<close>, as on a
  POSIX system with a UTF-8 locale, and \<^verbatim>\<open>json.load\<close> reads back the metadata that
  \<^verbatim>\<open>json.dump\<close> wrote, \<^verbatim>\<open>verify\<close> returns true after a generation that returned, for the
  version of the unchanged schema source.
\<close>

lemma generate_then_verify_utf8:
  assumes gen: "generate_models E dbml_path generated_dir w = (Inr (), w')"
    and unchanged: "fs w' dbml_path = fs w dbml_path"
    and version: "get_dbml_version E dbml_path w' = (Inr v, w')"
    and text_io: "\<forall>s. write_text E s = Inr (encode E s)"
    and json_io: "\<forall>a b c. json_load E (json_dump E (info_dict a b c)) = Inr (info_dict a b c)"
  shows "verify E v generated_dir w' = (Inr True, w')"
proof -
  from gen text_io obtain sc oc v' where
    files: "fs w' (join generated_dir SCHEMAS) = Some (File (encode E sc))"
      "fs w' (join generated_dir ORM) = Some (File (encode E oc))"
      "fs w' (join generated_dir INFO) = Some (File (json_dump E
          (info_dict v' (sha1_hex E (encode E sc)) (sha1_hex E (encode E oc)))))"
    and ver: "fs w' dbml_path = fs w dbml_path \<longrightarrow> fst (get_dbml_version E dbml_path w') = Inr v'"
    by (rule generated_files)
  from ver unchanged version have "v' = v" by simp
  with files json_io show ?thesis
    by (simp add: verify_unfold read_file_def getitem_def str_eq_iff info_dict_def)
qed

text \<open>
  On such a platform a change of one byte of \<^verbatim>\<open>schema.py\<close> or of \<^verbatim>\<open>orm.py\<close> after a
  generation makes \<^verbatim>\<open>verify\<close> return false, provided SHA-1 gives the old and the new
  content different digests.
\<close>

lemma modified_file_detected_utf8:
  assumes gen: "generate_models E dbml_path generated_dir w = (Inr (), w')"
    and text_io: "\<forall>s. write_text E s = Inr (encode E s)"
    and json_io: "\<forall>a b c. json_load E (json_dump E (info_dict a b c)) = Inr (info_dict a b c)"
    and name: "name = SCHEMAS \<or> name = ORM"
    and content: "fs w' (join generated_dir name) = Some (File content)"
    and byte: "i < length content" "c \<noteq> content ! i"
    and no_collision: "inj_on (sha1_hex E) {content, content[i := c]}"
    and modified: "w'' = w'\<lparr>fs := (fs w')(join generated_dir name \<mapsto> File (content[i := c]))\<rparr>"
  shows "verify E version generated_dir w'' = (Inr False, w'')"
proof -
  from gen text_io obtain sc oc v where
    files: "fs w' (join generated_dir SCHEMAS) = Some (File (encode E sc))"
      "fs w' (join generated_dir ORM) = Some (File (encode E oc))"
      "fs w' (join generated_dir INFO) = Some (File (json_dump E
          (info_dict v (sha1_hex E (encode E sc)) (sha1_hex E (encode E oc)))))"
    by (rule generated_files)
  from byte have "content[i := c] \<noteq> content"
    by (metis nth_list_update_eq)
  with no_collision have digest: "sha1_hex E (content[i := c]) \<noteq> sha1_hex E content"
    by (auto simp: inj_on_def)
  from name show ?thesis
  proof
    assume "name = SCHEMAS"
    with content files digest json_io show ?thesis
      by (simp add: modified verify_unfold read_file_def getitem_def str_eq_iff info_dict_def)
  next
    assume "name = ORM"
    with content files digest json_io show ?thesis
      by (simp add: modified verify_unfold read_file_def getitem_def str_eq_iff info_dict_def)
  qed
qed

section \<open>The recorded hashes are not those of the files\<close>

text \<open>
  Lines 95 and 96 record the digests of \<^verbatim>\<open>schema_content.encode()\<close> and
  \<^verbatim>\<open>orm_content.encode()\<close>, the UTF-8 bytes of the two strings, and not the digests of the
  bytes that lines 86 to 90 stored through files opened with mode \<^verbatim>\<open>'w'\<close>. \<^verbatim>\<open>verify\<close>
  hashes the bytes of the files; its docstring has it check the hash of the contents of the
  generated files against the hash from when they were generated.
\<close>

text \<open>
  C1 asks that \<^verbatim>\<open>verify\<close> return true right after a generation that returned, for the
  version of the unchanged schema source. The code breaks it where a newline is stored as
  carriage return and line feed: the generation returns, the schema source is what it was,
  \<^verbatim>\<open>get_dbml_version\<close> returns 1.0.0, and \<^verbatim>\<open>verify('1.0.0', 'out')\<close> returns false.
\<close>

theorem generate_then_verify_fails:
  "generate_models crlf_env ''shop.dbml'' ''out'' sample_world = (Inr (), crlf_generated_world)
   \<and> fs crlf_generated_world ''shop.dbml'' = fs sample_world ''shop.dbml''
   \<and> get_dbml_version crlf_env ''shop.dbml'' crlf_generated_world
       = (Inr ''1.0.0'', crlf_generated_world)
   \<and> verify crlf_env ''1.0.0'' ''out'' crlf_generated_world = (Inr False, crlf_generated_world)"
proof (intro conjI)
  show "generate_models crlf_env ''shop.dbml'' ''out'' sample_world = (Inr (), crlf_generated_world)"
    by (simp add: run_defs crlf_env_def crlf_def crlf_generated_world_def sample_defs)
  show "fs crlf_generated_world ''shop.dbml'' = fs sample_world ''shop.dbml''"
    by (simp add: crlf_generated_world_def sample_world_def)
  show "get_dbml_version crlf_env ''shop.dbml'' crlf_generated_world
          = (Inr ''1.0.0'', crlf_generated_world)"
    by (simp add: get_dbml_version_def read_file_def bindE_def liftE_def crlf_generated_world_def
        crlf_env_def sample_env_def sample_database_def)
  have load: "json_load crlf_env = sample_load" and digest: "sha1_hex crlf_env = (\<lambda>b. b)"
    by (simp_all add: crlf_env_def sample_env_def)
  show "verify crlf_env ''1.0.0'' ''out'' crlf_generated_world = (Inr False, crlf_generated_world)"
    by (simp add: verify_unfold read_file_def getitem_def str_eq_iff load digest sample_load_dump
        crlf_generated_world_def join_def INFO_def SCHEMAS_def ORM_def)
      (simp add: info_dict_def getitem_def str_eq_iff sample_code_def digest)
qed

text \<open>
  C8 asks that a change of one byte of \<^verbatim>\<open>schema.py\<close> after a generation make \<^verbatim>\<open>verify\<close>
  return false. The code breaks it under a GBK locale: the generation returns and stores
  the schema code with the bytes A8 A8 for its last letter, \<^verbatim>\<open>verify\<close> returns false for
  the files as generated, and after the byte at index 13 is changed from A8 to C3, with
  everything else as it was, \<^verbatim>\<open>verify('1.0.0', 'out')\<close> returns true.
\<close>

theorem modified_file_accepted:
  "generate_models gbk_env ''shop.dbml'' ''out'' sample_world = (Inr (), gbk_generated_world)
   \<and> fs gbk_generated_world ''out/schema.py''
       = Some (File (''id: int  # cl'' @ [CHR 0xA8, CHR 0xA8]))
   \<and> (''id: int  # cl'' @ [CHR 0xA8, CHR 0xA8]) [13 := CHR 0xC3]
       = ''id: int  # cl'' @ [CHR 0xC3, CHR 0xA8]
   \<and> verify gbk_env ''1.0.0'' ''out'' gbk_generated_world = (Inr False, gbk_generated_world)
   \<and> verify gbk_env ''1.0.0'' ''out''
        (gbk_generated_world\<lparr>fs := (fs gbk_generated_world)(''out/schema.py'' \<mapsto>
           File ((''id: int  # cl'' @ [CHR 0xA8, CHR 0xA8]) [13 := CHR 0xC3]))\<rparr>)
       = (Inr True,
          gbk_generated_world\<lparr>fs := (fs gbk_generated_world)(''out/schema.py'' \<mapsto>
           File ((''id: int  # cl'' @ [CHR 0xA8, CHR 0xA8]) [13 := CHR 0xC3]))\<rparr>)"
proof -
  have upd: "(''id: int  # cl'' @ [CHR 0xA8, CHR 0xA8]) [13 := CHR 0xC3]
               = ''id: int  # cl'' @ [CHR 0xC3, CHR 0xA8]"
    by code_simp
  have enc: "utf8 accent_code = ''id: int  # cl'' @ [CHR 0xC3, CHR 0xA8]"
    "utf8 (sample_code SQLAlchemy) = sample_code SQLAlchemy"
    "gbk accent_code = ''id: int  # cl'' @ [CHR 0xA8, CHR 0xA8]"
    "gbk (sample_code SQLAlchemy) = sample_code SQLAlchemy"
    by code_simp+
  have run: "generate_models gbk_env ''shop.dbml'' ''out'' sample_world = (Inr (), gbk_generated_world)"
    by (simp add: run_defs gbk_env_def enc gbk_generated_world_def sample_env_def sample_world_def
        sample_source_def sample_database_def join_def INFO_def SCHEMAS_def ORM_def)
  have load: "json_load gbk_env = sample_load" and digest: "sha1_hex gbk_env = (\<lambda>b. b)"
    by (simp_all add: gbk_env_def sample_env_def)
  have before: "verify gbk_env ''1.0.0'' ''out'' gbk_generated_world = (Inr False, gbk_generated_world)"
    by (simp add: verify_unfold read_file_def getitem_def str_eq_iff load digest sample_load_dump
        gbk_generated_world_def join_def INFO_def SCHEMAS_def ORM_def)
      (simp add: info_dict_def getitem_def str_eq_iff digest)
  have after: "verify gbk_env ''1.0.0'' ''out''
        (gbk_generated_world\<lparr>fs := (fs gbk_generated_world)(''out/schema.py'' \<mapsto>
           File (''id: int  # cl'' @ [CHR 0xC3, CHR 0xA8]))\<rparr>)
       = (Inr True,
          gbk_generated_world\<lparr>fs := (fs gbk_generated_world)(''out/schema.py'' \<mapsto>
           File (''id: int  # cl'' @ [CHR 0xC3, CHR 0xA8]))\<rparr>)"
    by (simp add: verify_unfold read_file_def getitem_def str_eq_iff load digest sample_load_dump
        gbk_generated_world_def join_def INFO_def SCHEMAS_def ORM_def)
      (simp add: info_dict_def getitem_def str_eq_iff digest)
  show ?thesis
    by (simp only: upd run before after) (simp add: gbk_generated_world_def)
qed

end
